theory Spec2Isabelle
  imports Complex_Main
begin

section \<open>The 4x4 transform helpers of GLprimer.cpp\<close>

text \<open>
  The matrix helpers of \<^verbatim>\<open>src/code/GLprimer.cpp\<close> (lines 74 to 271) build and multiply
  4x4 matrices stored as \<^verbatim>\<open>std::array<float, 16>\<close> in column-major order: the element of
  column \<open>c\<close> and row \<open>r\<close> is at linear index \<open>c * 4 + r\<close>.

  Data model. An array of 16 floats is a list of 16 numbers, and \<^verbatim>\<open>result[i] = e\<close> for
  \<open>i = 0, ..., 15\<close> in the order of the source becomes the list literal of the sixteen
  right-hand sides in the same order. A read \<^verbatim>\<open>m[i]\<close> is \<open>m ! i\<close>; the C++ type fixes the
  length at 16, so theorems about arbitrary input matrices assume \<open>length m = 16\<close>.

  Numbers. A \<^verbatim>\<open>float\<close> is modelled as a real number: arithmetic is exact, there is no
  rounding, no infinity and no NaN. An equation that the specification states "within
  floating-point tolerance" is proved as an exact equation of real numbers. Division needs
  care: in HOL \<open>x / 0 = 0\<close>, whereas the C++ division by zero yields an infinity or a NaN.
  The one function that divides, \<^verbatim>\<open>mat4perspective\<close>, is therefore embedded a second time
  with a partial division (\<open>mat4perspective_partial\<close>), and theorems about values reached
  through a division state that the divisor is not zero.
\<close>

type_synonym mat4 = "real list"
type_synonym vec4 = "real list"

subsection \<open>Matrix operations (GLprimer.cpp, lines 74-271)\<close>

definition mat4mult :: "mat4 \<Rightarrow> mat4 \<Rightarrow> mat4" where
  "mat4mult m1 m2 =
    [ m1 ! 0 * m2 ! 0 + m1 ! 4 * m2 ! 1 + m1 ! 8 * m2 ! 2 + m1 ! 12 * m2 ! 3,
      m1 ! 1 * m2 ! 0 + m1 ! 5 * m2 ! 1 + m1 ! 9 * m2 ! 2 + m1 ! 13 * m2 ! 3,
      m1 ! 2 * m2 ! 0 + m1 ! 6 * m2 ! 1 + m1 ! 10 * m2 ! 2 + m1 ! 14 * m2 ! 3,
      m1 ! 3 * m2 ! 0 + m1 ! 7 * m2 ! 1 + m1 ! 11 * m2 ! 2 + m1 ! 15 * m2 ! 3,

      m1 ! 0 * m2 ! 4 + m1 ! 4 * m2 ! 5 + m1 ! 8 * m2 ! 6 + m1 ! 12 * m2 ! 7,
      m1 ! 1 * m2 ! 4 + m1 ! 5 * m2 ! 5 + m1 ! 9 * m2 ! 6 + m1 ! 13 * m2 ! 7,
      m1 ! 2 * m2 ! 4 + m1 ! 6 * m2 ! 5 + m1 ! 10 * m2 ! 6 + m1 ! 14 * m2 ! 7,
      m1 ! 3 * m2 ! 4 + m1 ! 7 * m2 ! 5 + m1 ! 11 * m2 ! 6 + m1 ! 15 * m2 ! 7,

      m1 ! 0 * m2 ! 8 + m1 ! 4 * m2 ! 9 + m1 ! 8 * m2 ! 10 + m1 ! 12 * m2 ! 11,
      m1 ! 1 * m2 ! 8 + m1 ! 5 * m2 ! 9 + m1 ! 9 * m2 ! 10 + m1 ! 13 * m2 ! 11,
      m1 ! 2 * m2 ! 8 + m1 ! 6 * m2 ! 9 + m1 ! 10 * m2 ! 10 + m1 ! 14 * m2 ! 11,
      m1 ! 3 * m2 ! 8 + m1 ! 7 * m2 ! 9 + m1 ! 11 * m2 ! 10 + m1 ! 15 * m2 ! 11,

      m1 ! 0 * m2 ! 12 + m1 ! 4 * m2 ! 13 + m1 ! 8 * m2 ! 14 + m1 ! 12 * m2 ! 15,
      m1 ! 1 * m2 ! 12 + m1 ! 5 * m2 ! 13 + m1 ! 9 * m2 ! 14 + m1 ! 13 * m2 ! 15,
      m1 ! 2 * m2 ! 12 + m1 ! 6 * m2 ! 13 + m1 ! 10 * m2 ! 14 + m1 ! 14 * m2 ! 15,
      m1 ! 3 * m2 ! 12 + m1 ! 7 * m2 ! 13 + m1 ! 11 * m2 ! 14 + m1 ! 15 * m2 ! 15 ]"

definition mat4identity :: mat4 where
  "mat4identity =
    [ 1, 0, 0, 0,
      0, 1, 0, 0,
      0, 0, 1, 0,
      0, 0, 0, 1 ]"

definition mat4rotx :: "real \<Rightarrow> mat4" where
  "mat4rotx angle =
    [ 1, 0, 0, 0,
      0, cos angle, sin angle, 0,
      0, - sin angle, cos angle, 0,
      0, 0, 0, 1 ]"

definition mat4roty :: "real \<Rightarrow> mat4" where
  "mat4roty angle =
    [ cos angle, 0, - sin angle, 0,
      0, 1, 0, 0,
      sin angle, 0, cos angle, 0,
      0, 0, 0, 1 ]"

definition mat4rotz :: "real \<Rightarrow> mat4" where
  "mat4rotz angle =
    [ cos angle, sin angle, 0, 0,
      - sin angle, cos angle, 0, 0,
      0, 0, 1, 0,
      0, 0, 0, 1 ]"

definition mat4scale :: "real \<Rightarrow> mat4" where
  "mat4scale scale =
    [ scale, 0, 0, 0,
      0, scale, 0, 0,
      0, 0, scale, 0,
      0, 0, 0, 1 ]"

definition mat4translate :: "real \<Rightarrow> real \<Rightarrow> real \<Rightarrow> mat4" where
  "mat4translate x y z =
    [ 1, 0, 0, 0,
      0, 1, 0, 0,
      0, 0, 1, 0,
      x, y, z, 1 ]"

definition mat4perspective :: "real \<Rightarrow> real \<Rightarrow> real \<Rightarrow> real \<Rightarrow> mat4" where
  "mat4perspective vfov aspect znear zfar =
    (let f = 1 / tan (vfov / 2) in
     [ f / aspect, 0, 0, 0,
       0, f, 0, 0,
       0, 0, - (zfar + znear) / (zfar - znear), - 1,
       0, 0, - (2 * zfar * znear) / (zfar - znear), 0 ])"

subsection \<open>The projection with partial division\<close>

text \<open>
  A division whose divisor is zero has no number as its result (in C++ it yields an
  infinity or a NaN): \<open>fdiv\<close> returns \<open>None\<close> there.
\<close>

definition fdiv :: "real \<Rightarrow> real \<Rightarrow> real option" where
  "fdiv a b = (if b = 0 then None else Some (a / b))"

text \<open>
  The division \<^verbatim>\<open>a / tan(h)\<close>. The tangent is zero exactly where the sine is. HOL's \<open>tan\<close>
  is total and also returns \<open>0\<close> at the poles of the tangent (\<open>cos h = 0\<close>), where the
  tangent is infinite and not zero; so the divisor is tested through the sine. Away from
  the poles this is \<open>fdiv a (tan h)\<close> (lemma \<open>fdiv_tan_fdiv\<close>).
\<close>

definition fdiv_tan :: "real \<Rightarrow> real \<Rightarrow> real option" where
  "fdiv_tan a h = (if sin h = 0 then None else Some (a / tan h))"

text \<open>
  \<^verbatim>\<open>mat4perspective\<close> (lines 244-271) once more, with each of its five divisions partial:
  \<^verbatim>\<open>vfov / 2.0f\<close> and \<^verbatim>\<open>1.0f / tan(...)\<close> (line 247), \<^verbatim>\<open>f / aspect\<close> (line 249) and the two
  divisions by \<^verbatim>\<open>(zfar - znear)\<close> (lines 261 and 266). The function has no check and no
  early return: it always returns sixteen entries, and an entry is \<open>None\<close> when a division
  by zero is on the way to it. The other seven operations contain no division.
\<close>

definition mat4perspective_partial ::
  "real \<Rightarrow> real \<Rightarrow> real \<Rightarrow> real \<Rightarrow> real option list" where
  "mat4perspective_partial vfov aspect znear zfar =
    (let f = Option.bind (fdiv vfov 2) (\<lambda>h. fdiv_tan 1 h) in
     [ Option.bind f (\<lambda>f. fdiv f aspect), Some 0, Some 0, Some 0,
       Some 0, f, Some 0, Some 0,
       Some 0, Some 0, fdiv (- (zfar + znear)) (zfar - znear), Some (- 1),
       Some 0, Some 0, fdiv (- (2 * zfar * znear)) (zfar - znear), Some 0 ])"

subsection \<open>Applying a matrix to a point\<close>

text \<open>
  GLprimer.cpp never multiplies a matrix by a vector itself: the matrices are uploaded as
  uniforms and applied by the vertex shader \<^verbatim>\<open>src/code/vertex.glsl\<close>, whose line
  \<^verbatim>\<open>gl_Position = P * MV * vec4(Position, 1.0)\<close> uses the GLSL operator \<^verbatim>\<open>mat4 * vec4\<close>.
  For a column-major matrix and a column vector that operator computes, for each row \<open>r\<close>,
  the sum over the columns \<open>c\<close> of \<open>m[c * 4 + r] * v[c]\<close>.
\<close>

definition mat4apply :: "mat4 \<Rightarrow> vec4 \<Rightarrow> vec4" where
  "mat4apply m v =
    [ m ! 0 * v ! 0 + m ! 4 * v ! 1 + m ! 8 * v ! 2 + m ! 12 * v ! 3,
      m ! 1 * v ! 0 + m ! 5 * v ! 1 + m ! 9 * v ! 2 + m ! 13 * v ! 3,
      m ! 2 * v ! 0 + m ! 6 * v ! 1 + m ! 10 * v ! 2 + m ! 14 * v ! 3,
      m ! 3 * v ! 0 + m ! 7 * v ! 1 + m ! 11 * v ! 2 + m ! 15 * v ! 3 ]"

text \<open>
  After the vertex shader, OpenGL divides the clip-space position by its fourth component
  (the perspective divide); the third component of the quotient is the depth that the depth
  test compares.
\<close>

definition ndc_depth :: "vec4 \<Rightarrow> real" where
  "ndc_depth clip = clip ! 2 / clip ! 3"

text \<open>The homogeneous (bottom) row of a matrix: row 3 of each of the four columns.\<close>

definition bottom_row :: "mat4 \<Rightarrow> real list" where
  "bottom_row m = [ m ! 3, m ! 7, m ! 11, m ! 15 ]"

section \<open>Helper lemmas\<close>

lemma length_mat4mult: "length (mat4mult m1 m2) = 16"
  by (simp add: mat4mult_def)

lemma less_4_cases: "(n::nat) < 4 \<Longrightarrow> n = 0 \<or> n = 1 \<or> n = 2 \<or> n = 3"
  by arith

lemma sum_less_4: "(\<Sum>k<4. f k) = f 0 + f 1 + f 2 + f (3::nat)"
  for f :: "nat \<Rightarrow> real"
  by (simp add: eval_nat_numeral)

text \<open>A list of length 16 is the list of its sixteen elements.\<close>

lemma mat4_expand:
  assumes "length m = 16"
  shows "m = [m ! 0, m ! 1, m ! 2, m ! 3, m ! 4, m ! 5, m ! 6, m ! 7,
              m ! 8, m ! 9, m ! 10, m ! 11, m ! 12, m ! 13, m ! 14, m ! 15]"
  using assms
  by (intro nth_equalityI) (auto simp add: nth_Cons' less_Suc_eq eval_nat_numeral)

lemma mat4mult_identity_left:
  "mat4mult mat4identity m =
    [m ! 0, m ! 1, m ! 2, m ! 3, m ! 4, m ! 5, m ! 6, m ! 7,
     m ! 8, m ! 9, m ! 10, m ! 11, m ! 12, m ! 13, m ! 14, m ! 15]"
  by (simp add: mat4mult_def mat4identity_def)

lemma mat4mult_identity_right:
  "mat4mult m mat4identity =
    [m ! 0, m ! 1, m ! 2, m ! 3, m ! 4, m ! 5, m ! 6, m ! 7,
     m ! 8, m ! 9, m ! 10, m ! 11, m ! 12, m ! 13, m ! 14, m ! 15]"
  by (simp add: mat4mult_def mat4identity_def)

lemma sin_cos_products:
  "sin t * sin t + cos t * cos t = (1::real)"
  "cos t * cos t + sin t * sin t = (1::real)"
  using sin_cos_squared_add [of t] by (simp_all add: power2_eq_square add.commute)

lemma bottom_row_mat4mult:
  assumes "bottom_row m1 = [0, 0, 0, 1]" and "bottom_row m2 = [0, 0, 0, 1]"
  shows "bottom_row (mat4mult m1 m2) = [0, 0, 0, 1]"
  using assms by (simp add: bottom_row_def mat4mult_def)

subsection \<open>The projection of a view-space point\<close>

text \<open>
  The clip-space position of the view-space point \<open>(x, y, z, 1)\<close>: its third component is
  an affine function of \<open>z\<close>, and its fourth component is \<open>- z\<close>.
\<close>

lemma clip_of_view_point:
  "mat4apply (mat4perspective vfov aspect znear zfar) [x, y, z, 1] =
    [ (1 / tan (vfov / 2)) / aspect * x,
      (1 / tan (vfov / 2)) * y,
      - (zfar + znear) / (zfar - znear) * z + - (2 * zfar * znear) / (zfar - znear),
      - z ]"
  by (simp add: mat4apply_def mat4perspective_def Let_def)

lemma depth_quotient:
  fixes d s t z :: real
  assumes "d \<noteq> 0" and "z \<noteq> 0"
  shows "(- s / d * z + - t / d) / (- z) = s / d + t / d * (1 / z)"
  using assms by (simp add: field_simps)

text \<open>The depth after the perspective divide, as a function of the view-space \<open>z\<close>.\<close>

lemma depth_of_view_point:
  assumes "znear \<noteq> zfar" and "z \<noteq> 0"
  shows "ndc_depth (mat4apply (mat4perspective vfov aspect znear zfar) [x, y, z, 1]) =
    (zfar + znear) / (zfar - znear) + (2 * zfar * znear) / (zfar - znear) * (1 / z)"
proof -
  have d: "zfar - znear \<noteq> 0" using assms by simp
  show ?thesis
    unfolding clip_of_view_point ndc_depth_def
    using depth_quotient [OF d \<open>z \<noteq> 0\<close>, of "zfar + znear" "2 * zfar * znear"] by simp
qed

text \<open>
  In front of the camera (\<open>z < 0\<close>) the depth grows with the distance: \<open>1 / z\<close> decreases
  towards the camera and its coefficient is positive.
\<close>

lemma depth_strict_order:
  assumes "0 < znear" and "znear < zfar" and "z2 < z1" and "z1 < 0"
  shows "ndc_depth (mat4apply (mat4perspective vfov aspect znear zfar) [x1, y1, z1, 1])
       < ndc_depth (mat4apply (mat4perspective vfov aspect znear zfar) [x2, y2, z2, 1])"
proof -
  have k: "0 < (2 * zfar * znear) / (zfar - znear)"
    using assms by simp
  have inv: "1 / z1 < 1 / z2"
    using assms by (simp add: field_simps)
  have "(2 * zfar * znear) / (zfar - znear) * (1 / z1)
      < (2 * zfar * znear) / (zfar - znear) * (1 / z2)"
    by (rule mult_strict_left_mono [OF inv k])
  then show ?thesis
    using assms by (simp add: depth_of_view_point)
qed

lemma depth_plane_values:
  fixes d n f :: real
  assumes "d \<noteq> 0" and "n \<noteq> 0" and "f \<noteq> 0"
  shows "(f + n) / d + (2 * f * n) / d * (1 / (- n)) = - ((f - n) / d)"
    and "(f + n) / d + (2 * f * n) / d * (1 / (- f)) = (f - n) / d"
  using assms by (simp_all add: field_simps)

lemma depth_near_plane:
  assumes "0 < znear" and "znear < zfar"
  shows "ndc_depth (mat4apply (mat4perspective vfov aspect znear zfar) [x, y, - znear, 1]) = - 1"
proof -
  have nz: "zfar - znear \<noteq> 0" "znear \<noteq> 0" "zfar \<noteq> 0"
    using assms by simp_all
  have "ndc_depth (mat4apply (mat4perspective vfov aspect znear zfar) [x, y, - znear, 1]) =
      (zfar + znear) / (zfar - znear) + (2 * zfar * znear) / (zfar - znear) * (1 / (- znear))"
    using assms by (intro depth_of_view_point) simp_all
  also have "\<dots> = - ((zfar - znear) / (zfar - znear))"
    by (rule depth_plane_values(1) [OF nz])
  also have "\<dots> = - 1"
    using nz(1) by simp
  finally show ?thesis .
qed

lemma depth_far_plane:
  assumes "0 < znear" and "znear < zfar"
  shows "ndc_depth (mat4apply (mat4perspective vfov aspect znear zfar) [x, y, - zfar, 1]) = 1"
proof -
  have nz: "zfar - znear \<noteq> 0" "znear \<noteq> 0" "zfar \<noteq> 0"
    using assms by simp_all
  have "ndc_depth (mat4apply (mat4perspective vfov aspect znear zfar) [x, y, - zfar, 1]) =
      (zfar + znear) / (zfar - znear) + (2 * zfar * znear) / (zfar - znear) * (1 / (- zfar))"
    using assms by (intro depth_of_view_point) simp_all
  also have "\<dots> = (zfar - znear) / (zfar - znear)"
    by (rule depth_plane_values(2) [OF nz])
  also have "\<dots> = 1"
    using nz(1) by simp
  finally show ?thesis .
qed

lemma depth_lower_bound:
  assumes "0 < znear" and "znear < zfar" and "z \<le> - znear"
  shows "- 1 \<le> ndc_depth (mat4apply (mat4perspective vfov aspect znear zfar) [x, y, z, 1])"
proof (cases "z = - znear")
  case True
  then show ?thesis using depth_near_plane [OF assms(1,2)] by simp
next
  case False
  then have "z < - znear" using assms by simp
  then have "ndc_depth (mat4apply (mat4perspective vfov aspect znear zfar) [x, y, - znear, 1])
     < ndc_depth (mat4apply (mat4perspective vfov aspect znear zfar) [x, y, z, 1])"
    using assms by (intro depth_strict_order) simp_all
  then show ?thesis using depth_near_plane [OF assms(1,2)] by simp
qed

lemma depth_upper_bound:
  assumes "0 < znear" and "znear < zfar" and "- zfar \<le> z" and "z < 0"
  shows "ndc_depth (mat4apply (mat4perspective vfov aspect znear zfar) [x, y, z, 1]) \<le> 1"
proof (cases "z = - zfar")
  case True
  then show ?thesis using depth_far_plane [OF assms(1,2)] by simp
next
  case False
  then have "- zfar < z" using assms by simp
  then have "ndc_depth (mat4apply (mat4perspective vfov aspect znear zfar) [x, y, z, 1])
     < ndc_depth (mat4apply (mat4perspective vfov aspect znear zfar) [x, y, - zfar, 1])"
    using assms by (intro depth_strict_order) simp_all
  then show ?thesis using depth_far_plane [OF assms(1,2)] by simp
qed

subsection \<open>The entries of the projection with partial division\<close>


lemma focal_factor_partial:
  "Option.bind (fdiv vfov 2) (\<lambda>h. fdiv_tan 1 h) =
    (if sin (vfov / 2) = 0 then None else Some (1 / tan (vfov / 2)))"
  by (simp add: fdiv_def fdiv_tan_def)

text \<open>The sixteen entries, with the condition under which each one is a number.\<close>

lemma mat4perspective_partial_entries:
  "mat4perspective_partial vfov aspect znear zfar =
    [ if sin (vfov / 2) = 0 \<or> aspect = 0 then None else Some (1 / tan (vfov / 2) / aspect),
      Some 0, Some 0, Some 0,
      Some 0, if sin (vfov / 2) = 0 then None else Some (1 / tan (vfov / 2)), Some 0, Some 0,
      Some 0, Some 0,
      if znear = zfar then None else Some (- (zfar + znear) / (zfar - znear)), Some (- 1),
      Some 0, Some 0,
      if znear = zfar then None else Some (- (2 * zfar * znear) / (zfar - znear)), Some 0 ]"
  unfolding mat4perspective_partial_def focal_factor_partial Let_def
  by (simp add: fdiv_def)

text \<open>
  At \<open>vfov = pi\<close> the half angle is a pole of the tangent: the tangent is infinite there,
  the focal factor is \<open>0\<close>, and no division by zero takes place. (The \<^verbatim>\<open>float\<close> nearest to
  \<open>pi\<close> is not a pole; for it the code divides by a large finite tangent and gets a focal
  factor close to \<open>0\<close>.) At \<open>vfov = 0\<close> the tangent is zero and the focal factor is no
  number.
\<close>

lemma mat4perspective_partial_at_pole:
  "mat4perspective_partial pi aspect znear zfar ! 5 = Some 0"
  by (simp add: mat4perspective_partial_entries tan_def)

lemma mat4perspective_partial_zero_fov:
  "mat4perspective_partial 0 aspect znear zfar ! 5 = None"
  by (simp add: mat4perspective_partial_entries)

section \<open>Matrix multiplication\<close>

text \<open>
  C1: for all 16-element matrices \<open>a\<close> and \<open>b\<close> and every row \<open>r\<close> and column \<open>c\<close> in
  \<open>0..3\<close>, \<open>mat4mult a b\<close> is the matrix product under column-major storage: its element at
  linear index \<open>c * 4 + r\<close> is the sum over \<open>k\<close> in \<open>0..3\<close> of \<open>a[k * 4 + r] * b[c * 4 + k]\<close>.
  The product is again a 16-element matrix.
\<close>

theorem mat4mult_is_product:
  assumes "length a = 16" and "length b = 16" and "r < 4" and "c < 4"
  shows "length (mat4mult a b) = 16
    \<and> mat4mult a b ! (c * 4 + r) = (\<Sum>k<4. a ! (k * 4 + r) * b ! (c * 4 + k))"
proof -
  from \<open>r < 4\<close> have r: "r = 0 \<or> r = 1 \<or> r = 2 \<or> r = 3" by (rule less_4_cases)
  from \<open>c < 4\<close> have c: "c = 0 \<or> c = 1 \<or> c = 2 \<or> c = 3" by (rule less_4_cases)
  have "mat4mult a b ! (c * 4 + r) = (\<Sum>k<4. a ! (k * 4 + r) * b ! (c * 4 + k))"
    using r c unfolding sum_less_4
    by (elim disjE) (simp_all add: mat4mult_def numeral_2_eq_2 [symmetric])
  then show ?thesis by (simp add: length_mat4mult)
qed

text \<open>
  C1, at a concrete input: the element of column 3 and row 0 of the product of a
  translation by \<open>(1, 2, 3)\<close> and a scaling by \<open>2\<close>.
\<close>

theorem mat4mult_is_product_witness:
  "length (mat4translate 1 2 3) = 16 \<and> length (mat4scale 2) = 16
   \<and> (0::nat) < 4 \<and> (3::nat) < 4
   \<and> length (mat4mult (mat4translate 1 2 3) (mat4scale 2)) = 16
   \<and> mat4mult (mat4translate 1 2 3) (mat4scale 2) ! (3 * 4 + 0) =
       (\<Sum>k<4. mat4translate 1 2 3 ! (k * 4 + 0) * mat4scale 2 ! (3 * 4 + k))"
proof -
  have h: "length (mat4translate 1 2 3) = 16" "length (mat4scale 2) = 16"
    "(0::nat) < 4" "(3::nat) < 4"
    by (simp_all add: mat4translate_def mat4scale_def)
  show ?thesis
    using h mat4mult_is_product [OF h] by simp
qed

text \<open>
  C4: for every 16-element matrix \<open>M\<close>, \<open>mat4mult mat4identity M = M\<close> and
  \<open>mat4mult M mat4identity = M\<close>: \<open>mat4identity\<close> is the identity of \<open>mat4mult\<close> on both
  sides. In exact arithmetic the two sides are equal, so they agree within any tolerance.
\<close>

theorem mat4identity_neutral:
  assumes "length M = 16"
  shows "mat4mult mat4identity M = M \<and> mat4mult M mat4identity = M"
  using mat4_expand [OF assms] mat4mult_identity_left [of M] mat4mult_identity_right [of M]
  by simp

text \<open>C4, at a concrete input: the translation by \<open>(1, 2, 3)\<close>.\<close>

theorem mat4identity_neutral_witness:
  "length (mat4translate 1 2 3) = 16
   \<and> mat4mult mat4identity (mat4translate 1 2 3) = mat4translate 1 2 3
   \<and> mat4mult (mat4translate 1 2 3) mat4identity = mat4translate 1 2 3"
proof -
  have h: "length (mat4translate 1 2 3) = 16" by (simp add: mat4translate_def)
  show ?thesis using h mat4identity_neutral [OF h] by simp
qed

text \<open>
  C5: for every angle \<open>\<theta>\<close>, the rotation about the z axis by \<open>\<theta>\<close> multiplied by the
  rotation by \<open>- \<theta>\<close> is the identity matrix (exactly, in exact arithmetic).
\<close>

theorem mat4rotz_inverse:
  "mat4mult (mat4rotz \<theta>) (mat4rotz (- \<theta>)) = mat4identity"
  by (simp add: mat4mult_def mat4rotz_def mat4identity_def sin_cos_products)

section \<open>The constructors\<close>

text \<open>
  C6: \<open>mat4rotx (pi / 2)\<close> applied to the homogeneous point \<open>(0, 1, 0, 1)\<close> yields
  \<open>(0, 0, 1, 1)\<close>. In general \<open>mat4rotx angle\<close> is the right-hand-rule rotation about the x
  axis: it keeps \<open>x\<close> and \<open>w\<close> and turns \<open>(y, z)\<close> counter-clockwise by \<open>angle\<close>, from the y axis
  towards the z axis. Outside the rotated 2x2 block (indices 5, 6, 9, 10) every entry is
  the entry of the identity matrix.
\<close>

theorem mat4rotx_quarter_turn:
  "mat4apply (mat4rotx (pi / 2)) [0, 1, 0, 1] = [0, 0, 1, 1]
   \<and> mat4apply (mat4rotx angle) [x, y, z, w] =
       [x, cos angle * y - sin angle * z, sin angle * y + cos angle * z, w]
   \<and> map ((!) (mat4rotx angle)) [0, 1, 2, 3, 4, 7, 8, 11, 12, 13, 14, 15] =
       map ((!) mat4identity) [0, 1, 2, 3, 4, 7, 8, 11, 12, 13, 14, 15]"
  by (simp add: mat4apply_def mat4rotx_def mat4identity_def)

text \<open>
  C7: for all \<open>x\<close>, \<open>y\<close>, \<open>z\<close>, \<open>mat4translate x y z\<close> has the linear part of the identity
  (indices 0, 1, 2, 4, 5, 6, 8, 9, 10), the homogeneous row \<open>(0, 0, 0, 1)\<close> and the
  translation \<open>(x, y, z)\<close> in the last column (indices 12, 13, 14); applied to the
  homogeneous point \<open>(0, 0, 0, 1)\<close> it yields \<open>(x, y, z, 1)\<close>, and it moves any point
  \<open>(px, py, pz, 1)\<close> by \<open>(x, y, z)\<close>.
\<close>

theorem mat4translate_spec:
  "map ((!) (mat4translate x y z)) [0, 1, 2, 4, 5, 6, 8, 9, 10] =
     map ((!) mat4identity) [0, 1, 2, 4, 5, 6, 8, 9, 10]
   \<and> bottom_row (mat4translate x y z) = [0, 0, 0, 1]
   \<and> map ((!) (mat4translate x y z)) [12, 13, 14] = [x, y, z]
   \<and> mat4apply (mat4translate x y z) [0, 0, 0, 1] = [x, y, z, 1]
   \<and> mat4apply (mat4translate x y z) [px, py, pz, 1] = [px + x, py + y, pz + z, 1]"
  by (simp add: mat4apply_def mat4translate_def mat4identity_def bottom_row_def)

text \<open>
  C8: for every factor \<open>s\<close>, \<open>mat4scale s\<close> scales \<open>x\<close>, \<open>y\<close> and \<open>z\<close> by \<open>s\<close> and keeps \<open>w\<close>;
  its translation column (indices 12, 13, 14) and its homogeneous row are those of the
  identity; applied to the homogeneous point \<open>(1, 1, 1, 1)\<close> it yields \<open>(s, s, s, 1)\<close>.
\<close>

theorem mat4scale_spec:
  "mat4apply (mat4scale s) [1, 1, 1, 1] = [s, s, s, 1]
   \<and> mat4apply (mat4scale s) [x, y, z, w] = [s * x, s * y, s * z, w]
   \<and> map ((!) (mat4scale s)) [12, 13, 14] = map ((!) mat4identity) [12, 13, 14]
   \<and> bottom_row (mat4scale s) = bottom_row mat4identity"
  by (simp add: mat4apply_def mat4scale_def mat4identity_def bottom_row_def)

text \<open>
  C10: \<open>mat4identity\<close>, \<open>mat4rotx\<close>, \<open>mat4roty\<close>, \<open>mat4rotz\<close>, \<open>mat4scale\<close> and
  \<open>mat4translate\<close> return, for every argument, a matrix whose homogeneous bottom row
  (indices 3, 7, 11, 15) is exactly \<open>(0, 0, 0, 1)\<close>, and \<open>mat4mult\<close> preserves this: the
  product of two matrices with bottom row \<open>(0, 0, 0, 1)\<close> has bottom row \<open>(0, 0, 0, 1)\<close>.
  The bottom row of \<open>mat4perspective\<close> is \<open>(0, 0, - 1, 0)\<close>, which is why it is excepted.
\<close>

theorem homogeneous_row_invariant:
  "bottom_row mat4identity = [0, 0, 0, 1]
   \<and> bottom_row (mat4rotx angle) = [0, 0, 0, 1]
   \<and> bottom_row (mat4roty angle) = [0, 0, 0, 1]
   \<and> bottom_row (mat4rotz angle) = [0, 0, 0, 1]
   \<and> bottom_row (mat4scale s) = [0, 0, 0, 1]
   \<and> bottom_row (mat4translate x y z) = [0, 0, 0, 1]
   \<and> (bottom_row m1 = [0, 0, 0, 1] \<and> bottom_row m2 = [0, 0, 0, 1]
        \<longrightarrow> bottom_row (mat4mult m1 m2) = [0, 0, 0, 1])
   \<and> bottom_row (mat4perspective vfov aspect znear zfar) = [0, 0, - 1, 0]"
proof -
  have "bottom_row m1 = [0, 0, 0, 1] \<and> bottom_row m2 = [0, 0, 0, 1]
        \<longrightarrow> bottom_row (mat4mult m1 m2) = [0, 0, 0, 1]"
    using bottom_row_mat4mult [of m1 m2] by blast
  then show ?thesis
    by (simp add: bottom_row_def mat4identity_def mat4rotx_def mat4roty_def mat4rotz_def
        mat4scale_def mat4translate_def mat4perspective_def Let_def)
qed

text \<open>
  C10, at a concrete input: the product of a translation by \<open>(1, 2, 3)\<close> and a scaling by
  \<open>2\<close> keeps the bottom row \<open>(0, 0, 0, 1)\<close>.
\<close>

theorem homogeneous_row_invariant_witness:
  "bottom_row (mat4translate 1 2 3) = [0, 0, 0, 1]
   \<and> bottom_row (mat4scale 2) = [0, 0, 0, 1]
   \<and> bottom_row (mat4mult (mat4translate 1 2 3) (mat4scale 2)) = [0, 0, 0, 1]"
proof -
  have h: "bottom_row (mat4translate 1 2 3) = [0, 0, 0, 1]"
    "bottom_row (mat4scale 2) = [0, 0, 0, 1]"
    by (simp_all add: bottom_row_def mat4translate_def mat4scale_def)
  show ?thesis
    using h homogeneous_row_invariant [where ?m1.0 = "mat4translate 1 2 3"
        and ?m2.0 = "mat4scale 2"]
    by simp
qed

section \<open>The perspective projection\<close>

text \<open>
  C3: \<open>mat4perspective (pi / 2) 1 0.1 100\<close> has \<open>- 1\<close> at column 2, row 3 (index 11) and
  \<open>- (far + near) / (far - near)\<close> at column 2, row 2 (index 10) for \<open>near = 0.1\<close> and
  \<open>far = 100\<close>; its elements at indices 0 and 5 are \<open>f / aspect\<close> and \<open>f\<close> with
  \<open>f = 1 / tan (fov / 2)\<close>. Here \<open>f = 1\<close>, so the whole matrix is known, and none of the
  divisors (\<open>2\<close>, \<open>tan (fov / 2)\<close>, \<open>aspect\<close>, and \<open>far - near\<close> twice) is zero.
\<close>

theorem mat4perspective_example:
  "mat4perspective (pi / 2) 1 (1 / 10) 100 ! 11 = - 1
   \<and> mat4perspective (pi / 2) 1 (1 / 10) 100 ! 10 = - (100 + 1 / 10) / (100 - 1 / 10)
   \<and> mat4perspective (pi / 2) 1 (1 / 10) 100 ! 0 = (1 / tan ((pi / 2) / 2)) / 1
   \<and> mat4perspective (pi / 2) 1 (1 / 10) 100 ! 5 = 1 / tan ((pi / 2) / 2)
   \<and> mat4perspective (pi / 2) 1 (1 / 10) 100 =
       [ 1, 0, 0, 0,  0, 1, 0, 0,  0, 0, - (1001 / 999), - 1,  0, 0, - (200 / 999), 0 ]
   \<and> 0 \<notin> set [2, tan ((pi / 2) / 2), 1, 100 - 1 / 10, 100 - 1 / 10 :: real]"
  by (simp add: mat4perspective_def Let_def tan_45)

text \<open>
  C2, as the code has it: for \<open>0 < near < far\<close> and two view-space points with
  \<open>- far \<le> z2 < z1 \<le> - near\<close> (the first point is the nearer one), the clip-space \<open>w\<close> of
  each point is \<open>- z\<close>, and after the perspective divide the nearer point has the
  \<^emph>\<open>smaller\<close> depth. A point on the near plane (\<open>z = - near\<close>) has depth exactly \<open>- 1\<close>, a
  point on the far plane (\<open>z = - far\<close>) has depth exactly \<open>1\<close>, and the depths of the two
  points lie between these values. This is the order that the program's depth test expects: it enables
  \<^verbatim>\<open>GL_DEPTH_TEST\<close> (line 513) with OpenGL's default comparison, which keeps the fragment
  of smaller depth.
\<close>

theorem mat4perspective_depth_order:
  assumes "0 < znear" and "znear < zfar"
    and "- zfar \<le> z2" and "z2 < z1" and "z1 \<le> - znear"
  shows "mat4apply (mat4perspective vfov aspect znear zfar) [x1, y1, z1, 1] ! 3 = - z1
    \<and> mat4apply (mat4perspective vfov aspect znear zfar) [x2, y2, z2, 1] ! 3 = - z2
    \<and> ndc_depth (mat4apply (mat4perspective vfov aspect znear zfar) [x1, y1, z1, 1])
        < ndc_depth (mat4apply (mat4perspective vfov aspect znear zfar) [x2, y2, z2, 1])
    \<and> - 1 \<le> ndc_depth (mat4apply (mat4perspective vfov aspect znear zfar) [x1, y1, z1, 1])
    \<and> ndc_depth (mat4apply (mat4perspective vfov aspect znear zfar) [x2, y2, z2, 1]) \<le> 1
    \<and> ndc_depth (mat4apply (mat4perspective vfov aspect znear zfar) [x1, y1, - znear, 1]) = - 1
    \<and> ndc_depth (mat4apply (mat4perspective vfov aspect znear zfar) [x2, y2, - zfar, 1]) = 1"
proof -
  have neg: "z1 < 0" "z2 < 0" using assms by simp_all
  have near: "ndc_depth (mat4apply (mat4perspective vfov aspect znear zfar)
      [x1, y1, - znear, 1]) = - 1"
    using assms(1,2) by (rule depth_near_plane)
  have far: "ndc_depth (mat4apply (mat4perspective vfov aspect znear zfar)
      [x2, y2, - zfar, 1]) = 1"
    using assms(1,2) by (rule depth_far_plane)
  have w: "mat4apply (mat4perspective vfov aspect znear zfar) [x1, y1, z1, 1] ! 3 = - z1"
    "mat4apply (mat4perspective vfov aspect znear zfar) [x2, y2, z2, 1] ! 3 = - z2"
    by (simp_all add: clip_of_view_point)
  have ord: "ndc_depth (mat4apply (mat4perspective vfov aspect znear zfar) [x1, y1, z1, 1])
        < ndc_depth (mat4apply (mat4perspective vfov aspect znear zfar) [x2, y2, z2, 1])"
    using assms(1,2,4) neg(1) by (rule depth_strict_order)
  have lo: "- 1 \<le> ndc_depth (mat4apply (mat4perspective vfov aspect znear zfar) [x1, y1, z1, 1])"
    using assms(1,2,5) by (rule depth_lower_bound)
  have hi: "ndc_depth (mat4apply (mat4perspective vfov aspect znear zfar) [x2, y2, z2, 1]) \<le> 1"
    using assms(1,2,3) neg(2) by (rule depth_upper_bound)
  from w ord lo hi near far show ?thesis by blast
qed

text \<open>
  C2, the amended statement at a concrete input: \<open>near = 1\<close>, \<open>far = 3\<close>, and the points at
  \<open>z = - 3/2\<close> (nearer) and \<open>z = - 2\<close> (farther) on the view axis; the near plane is at
  \<open>z = - 1\<close> and the far plane at \<open>z = - 3\<close>.
\<close>

theorem mat4perspective_depth_order_witness:
  "(0::real) < 1 \<and> (1::real) < 3 \<and> - (3::real) \<le> - 2 \<and> - (2::real) < - (3 / 2)
   \<and> - (3 / 2 :: real) \<le> - 1
   \<and> mat4apply (mat4perspective (pi / 2) 1 1 3) [0, 0, - (3 / 2), 1] ! 3 = 3 / 2
   \<and> mat4apply (mat4perspective (pi / 2) 1 1 3) [0, 0, - 2, 1] ! 3 = 2
   \<and> ndc_depth (mat4apply (mat4perspective (pi / 2) 1 1 3) [0, 0, - (3 / 2), 1])
       < ndc_depth (mat4apply (mat4perspective (pi / 2) 1 1 3) [0, 0, - 2, 1])
   \<and> ndc_depth (mat4apply (mat4perspective (pi / 2) 1 1 3) [0, 0, - 1, 1]) = - 1
   \<and> ndc_depth (mat4apply (mat4perspective (pi / 2) 1 1 3) [0, 0, - 3, 1]) = 1"
proof -
  have h: "(0::real) < 1" "(1::real) < 3" "- (3::real) \<le> - 2" "- (2::real) < - (3 / 2)"
    "- (3 / 2 :: real) \<le> - 1"
    by simp_all
  show ?thesis
    using h mat4perspective_depth_order [OF h, where vfov = "pi / 2" and aspect = 1
        and ?x1.0 = 0 and ?y1.0 = 0 and ?x2.0 = 0 and ?y2.0 = 0]
    by simp
qed

text \<open>
  C2, as stated, fails: it says that the nearer point receives the greater depth. With
  \<open>near = 1\<close> and \<open>far = 3\<close> the point at \<open>z = - 3/2\<close> is nearer than the point at
  \<open>z = - 2\<close>, yet its depth is \<open>0\<close> and the depth of the farther point is \<open>1/2\<close>.
\<close>

theorem mat4perspective_inverted_z_counterexample:
  "(0::real) < 1 \<and> (1::real) < 3
   \<and> ndc_depth (mat4apply (mat4perspective (pi / 2) 1 1 3) [0, 0, - (3 / 2), 1]) = 0
   \<and> ndc_depth (mat4apply (mat4perspective (pi / 2) 1 1 3) [0, 0, - 2, 1]) = 1 / 2
   \<and> \<not> (ndc_depth (mat4apply (mat4perspective (pi / 2) 1 1 3) [0, 0, - (3 / 2), 1])
          > ndc_depth (mat4apply (mat4perspective (pi / 2) 1 1 3) [0, 0, - 2, 1]))"
  by (simp add: ndc_depth_def mat4apply_def mat4perspective_def Let_def tan_45)

section \<open>Failure semantics\<close>




end
